theory Spec2Isabelle
  imports Main "HOL-Library.Signed_Division"
begin

section \<open>Values shared by the client and the server side\<close>

text \<open>
  Go's \<^verbatim>\<open>time.Duration\<close> is an \<^verbatim>\<open>int64\<close> count of nanoseconds. The code only
  compares a duration with zero and divides it by \<^verbatim>\<open>time.Millisecond\<close>; neither can
  overflow, so durations are integers here and Go's division (truncation towards zero)
  is \<open>sdiv\<close>.
\<close>

type_synonym Duration = int

definition Millisecond :: Duration where
  "Millisecond = 1000000"

type_synonym bytes = "nat list"

text \<open>
  Error values. \<^verbatim>\<open>ErrTimedOut\<close> and \<^verbatim>\<open>ErrNilPublishChannel\<close> are the two package
  variables of \<^verbatim>\<open>errors/errors.go\<close>; \<open>ErrorsNew\<close> is a value made on the spot by
  \<^verbatim>\<open>errors.New\<close>; \<open>TransportError\<close> is whatever the AMQP library or the JSON encoder
  hands back. \<open>Error\<close> is the method \<^verbatim>\<open>Error()\<close>, the message.
\<close>

datatype error =
    ErrTimedOut
  | ErrNilPublishChannel
  | ErrorsNew string
  | TransportError string

fun Error :: "error \<Rightarrow> string" where
  "Error ErrTimedOut = ''timed out''"
| "Error ErrNilPublishChannel = ''No AMQP channel to publish the response to.''"
| "Error (ErrorsNew m) = m"
| "Error (TransportError m) = m"

text \<open>
  A panic unwinds the goroutine that raised it. The three panics of the code: \<^verbatim>\<open>panic(err)\<close>
  with an error value, a failed type assertion \<^verbatim>\<open>x.(string)\<close>, and a method called
  through a nil channel pointer.
\<close>

datatype panic_value =
    PanicError error
  | PanicTypeAssertion
  | PanicNilChannel

datatype 'a outcome = Panics panic_value | Returns 'a

text \<open>Values of an \<^verbatim>\<open>amqp.Table\<close> (a \<^verbatim>\<open>map[string]interface{}\<close>).\<close>

datatype header_value = HString string | HInt int | HBool bool | HBytes bytes

type_synonym Table = "string \<rightharpoonup> header_value"

text \<open>\<^verbatim>\<open>amqp.Publishing\<close>: the fields the code sets; an unset string field is empty.\<close>

record Publishing =
  Headers :: Table
  Expiration :: string
  ContentType :: string
  CorrelationId :: string
  ReplyTo :: string
  Body :: bytes

text \<open>\<^verbatim>\<open>amqp.Delivery\<close>: the fields the code reads.\<close>

record Delivery =
  dHeaders :: Table
  dContentType :: string
  dCorrelationId :: string
  dReplyTo :: string
  dBody :: bytes

datatype log_level = Info | Debug | Err

text \<open>
  What a function does to the world outside, in the order it does it. A publish that
  the channel refuses hands nothing to the broker and leaves no \<open>EPublish\<close>.
  The hooks of an extension are user code behind an interface; a call of one is the
  event that records the extension and the arguments it was given.
\<close>

type_synonym Extension = nat

record Request =
  rServiceName :: string
  rMethod :: string
  rContentType :: string
  rBody :: bytes

record Response =
  content :: bytes
  resContentType :: string
  statusCode :: int
  headers :: Table

datatype effect =
    EPublish string string Publishing
  | EAck bool
  | EReject bool
  | ELog log_level string "string list"
  | EChannelClose
  | EIncomingRequest Extension Request
  | EHandler Request
  | EOutgoingResponse Extension Request Response Duration int

text \<open>What a goroutine did before it ended, and the panic it ended in, if any.\<close>

type_synonym task = "effect list \<times> panic_value option"

section \<open>strconv.FormatInt, base 10\<close>

definition digit :: "nat \<Rightarrow> char" where
  "digit d = ''0123456789'' ! d"

function decimal :: "nat \<Rightarrow> string" where
  "decimal n = (if n < 10 then [digit n] else decimal (n div 10) @ [digit (n mod 10)])"
  by pat_completeness auto
termination
  by (relation "measure (\<lambda>n. n)") auto

declare decimal.simps [simp del]

definition FormatInt :: "int \<Rightarrow> string" where
  "FormatInt i = (if i < 0 then CHR ''-'' # decimal (nat (- i)) else decimal (nat i))"

text \<open>Reading a decimal string back (\<^verbatim>\<open>strconv.ParseInt\<close> on well-formed input).\<close>

definition digit_value :: "char \<Rightarrow> nat" where
  "digit_value c = of_char c - 48"

definition parse_decimal :: "string \<Rightarrow> nat" where
  "parse_decimal s = foldl (\<lambda>acc c. 10 * acc + digit_value c) 0 s"

definition ParseInt :: "string \<Rightarrow> int" where
  "ParseInt s = (case s of
       [] \<Rightarrow> 0
     | c # cs \<Rightarrow> if c = CHR ''-'' then - int (parse_decimal cs) else int (parse_decimal s))"

section \<open>The client: slots and the call builder\<close>

text \<open>
  A slot carries its correlation token. The response channel and the lock of the
  real slot play no part below.
\<close>

record Slot =
  correlationID :: string

type_synonym registry = "string \<rightharpoonup> Slot"

record Client =
  serviceName :: string
  defaultTTL :: Duration
  responseQueue_Name :: string
  slots :: registry

record call =
  client :: Client
  timeout :: Duration
  call_method :: string
  body :: bytes
  contentType :: string

text \<open>
  Modelled from the spec: the slot registry (section 4.1). \<^verbatim>\<open>NewSlot\<close>,
  \<^verbatim>\<open>makeNewSlot\<close> and \<^verbatim>\<open>Dispose\<close> are called by the code below but defined in
  files that are not among the sources. The spec: \<open>createSlot\<close> "generates a fresh
  unique token and registers the Slot", \<open>lookup\<close> finds it by its token and \<open>dispose\<close>
  "removes the entry". The token the generator picks is the argument \<open>tok\<close>.
\<close>

definition createSlot :: "string \<Rightarrow> registry \<Rightarrow> Slot \<times> registry" where
  "createSlot tok reg = (let s = \<lparr>correlationID = tok\<rparr> in (s, reg(tok \<mapsto> s)))"

text \<open>Modelled from the spec: \<open>lookup(correlationID)\<close> gives the slot or none (section 4.1).\<close>

definition lookup :: "string \<Rightarrow> registry \<Rightarrow> Slot option" where
  "lookup cid reg = reg cid"

text \<open>Modelled from the spec: \<open>dispose(correlationID)\<close> "removes the entry" (section 4.1).\<close>

definition dispose :: "string \<Rightarrow> registry \<Rightarrow> registry" where
  "dispose cid reg = reg(cid := None)"

text \<open>Modelled from the spec: \<^verbatim>\<open>NewSlot()\<close> of package porthos is \<open>createSlot\<close> on the
  registry that the client holds.\<close>

definition NewSlot :: "string \<Rightarrow> Client \<Rightarrow> Slot \<times> Client" where
  "NewSlot tok cl = (case createSlot tok (slots cl) of (s, reg) \<Rightarrow> (s, cl\<lparr>slots := reg\<rparr>))"

text \<open>Modelled from the spec: \<^verbatim>\<open>client.makeNewSlot()\<close> of package client, likewise.\<close>

definition makeNewSlot :: "string \<Rightarrow> Client \<Rightarrow> Slot \<times> Client" where
  "makeNewSlot tok cl = (case createSlot tok (slots cl) of (s, reg) \<Rightarrow> (s, cl\<lparr>slots := reg\<rparr>))"

text \<open>Modelled from the spec: a slot's correlation ID is the token it is registered
  under.\<close>

definition getCorrelationID :: "Slot \<Rightarrow> string" where
  "getCorrelationID s = correlationID s"

text \<open>Modelled from the spec: \<^verbatim>\<open>slot.Dispose()\<close> disposes the slot's own entry.\<close>

definition Dispose :: "Slot \<Rightarrow> Client \<Rightarrow> Client" where
  "Dispose s cl = cl\<lparr>slots := dispose (correlationID s) (slots cl)\<rparr>"

subsection \<open>The builder (package porthos)\<close>

definition newCall :: "Client \<Rightarrow> string \<Rightarrow> call" where
  "newCall cl m = \<lparr>client = cl, timeout = 0, call_method = m, body = [], contentType = []\<rparr>"

definition WithTimeout :: "call \<Rightarrow> Duration \<Rightarrow> call" where
  "WithTimeout c t = c\<lparr>timeout := t\<rparr>"

definition WithBody :: "call \<Rightarrow> bytes \<Rightarrow> call" where
  "WithBody c b = c\<lparr>body := b, contentType := ''application/octet-stream''\<rparr>"

definition WithBodyContentType :: "call \<Rightarrow> bytes \<Rightarrow> string \<Rightarrow> call" where
  "WithBodyContentType c b ct = c\<lparr>body := b, contentType := ct\<rparr>"

text \<open>
  \<^verbatim>\<open>json.Marshal\<close> belongs to the standard library: it is the parameter \<open>Marshal\<close>,
  which returns the encoding or an error (and then, as the library does, no bytes).
\<close>

definition withJSON :: "('v \<Rightarrow> error + bytes) \<Rightarrow> call \<Rightarrow> 'v \<Rightarrow> call outcome" where
  "withJSON Marshal c i =
     (case Marshal i of
        Inl err \<Rightarrow> Panics (PanicError err)
      | Inr data \<Rightarrow> Returns (c\<lparr>body := data, contentType := ''application/json''\<rparr>))"

definition WithArgs :: "('v \<Rightarrow> error + bytes) \<Rightarrow> call \<Rightarrow> 'v \<Rightarrow> call outcome" where
  "WithArgs Marshal c args = withJSON Marshal c args"

definition WithMap :: "('v \<Rightarrow> error + bytes) \<Rightarrow> call \<Rightarrow> 'v \<Rightarrow> call outcome" where
  "WithMap Marshal c m = withJSON Marshal c m"

definition WithStruct :: "('v \<Rightarrow> error + bytes) \<Rightarrow> call \<Rightarrow> 'v \<Rightarrow> call outcome" where
  "WithStruct Marshal c i = withJSON Marshal c i"

definition getTimeout :: "call \<Rightarrow> Duration" where
  "getTimeout c = (if timeout c > 0 then timeout c else defaultTTL (client c))"

definition getTimeoutMilliseconds :: "call \<Rightarrow> int" where
  "getTimeoutMilliseconds c =
     (let t = defaultTTL (client c);
          t = (if timeout c > 0 then timeout c else t)
      in t sdiv Millisecond)"

subsection \<open>The builder (package client)\<close>

text \<open>\<^verbatim>\<open>c.body, _ = json.Marshal(args)\<close>: the error is dropped and the nil slice stored.\<close>

definition marshal_discarding_error :: "('v \<Rightarrow> error + bytes) \<Rightarrow> 'v \<Rightarrow> bytes" where
  "marshal_discarding_error Marshal v = (case Marshal v of Inl err \<Rightarrow> [] | Inr data \<Rightarrow> data)"

definition client_WithArgs :: "('v \<Rightarrow> error + bytes) \<Rightarrow> call \<Rightarrow> 'v \<Rightarrow> call outcome" where
  "client_WithArgs Marshal c args =
     Returns (c\<lparr>body := marshal_discarding_error Marshal args,
                contentType := ''application/porthos-args''\<rparr>)"

definition client_WithMap :: "('v \<Rightarrow> error + bytes) \<Rightarrow> call \<Rightarrow> 'v \<Rightarrow> call outcome" where
  "client_WithMap Marshal c m =
     Returns (c\<lparr>body := marshal_discarding_error Marshal m,
                contentType := ''application/porthos-map''\<rparr>)"

definition getTimeoutInt64 :: "call \<Rightarrow> int" where
  "getTimeoutInt64 c =
     (let t = defaultTTL (client c);
          t = (if timeout c > 0 then timeout c else t)
      in t sdiv Millisecond)"

subsection \<open>Publishing a call\<close>

text \<open>
  \<^verbatim>\<open>Channel.Publish\<close> is the AMQP library's; whether it succeeds is the environment's
  answer \<open>pub_res\<close> (\<open>None\<close> for a nil error).
\<close>

definition Publish :: "error option \<Rightarrow> string \<Rightarrow> string \<Rightarrow> Publishing \<Rightarrow> error option \<times> effect list" where
  "Publish pub_res exchange key msg =
     (case pub_res of
        Some err \<Rightarrow> (Some err, [])
      | None \<Rightarrow> (None, [EPublish exchange key msg]))"

definition request_message :: "call \<Rightarrow> string \<Rightarrow> string \<Rightarrow> Publishing" where
  "request_message c expiration cid =
     \<lparr>Headers = [''X-Method'' \<mapsto> HString (call_method c)],
      Expiration = expiration,
      ContentType = contentType c,
      CorrelationId = cid,
      ReplyTo = responseQueue_Name (client c),
      Body = body c\<rparr>"

definition published_log :: "call \<Rightarrow> string \<Rightarrow> effect" where
  "published_log c cid =
     ELog Info ''Published method %s in %s. Expecting response in queue %s and slot %d''
       [call_method c, serviceName (client c), responseQueue_Name (client c), cid]"

text \<open>
  \<open>Async\<close> of package porthos. \<open>tok\<close> is the token of the slot that \<^verbatim>\<open>NewSlot\<close>
  makes, \<open>open_res\<close> the error of \<^verbatim>\<open>broker.openChannel\<close> and \<open>pub_res\<close> that of the
  publish. The result is what the function returns, the client afterwards and the
  effects; the deferred \<^verbatim>\<open>ch.Close()\<close> runs last on every path that opened a channel.
\<close>

definition Async :: "string \<Rightarrow> error option \<Rightarrow> error option \<Rightarrow> call \<Rightarrow> (error + Slot) \<times> Client \<times> effect list" where
  "Async tok open_res pub_res c =
     (case NewSlot tok (client c) of (res, cl) \<Rightarrow>
        let cid = getCorrelationID res in
        (case open_res of
           Some err \<Rightarrow> (Inl err, cl, [])
         | None \<Rightarrow>
             (case Publish pub_res [] (serviceName (client c))
                     (request_message c (FormatInt (getTimeoutMilliseconds c)) cid) of
                (perr, es) \<Rightarrow>
                  (case perr of
                     Some err \<Rightarrow> (Inl err, cl, es @ [published_log c cid, EChannelClose])
                   | None \<Rightarrow> (Inr res, cl, es @ [published_log c cid, EChannelClose])))))"

text \<open>\<open>Async\<close> of package client: the slot comes from the client, the publish goes
  through the client's own channel.\<close>

definition client_Async :: "string \<Rightarrow> error option \<Rightarrow> call \<Rightarrow> (error + Slot) \<times> Client \<times> effect list" where
  "client_Async tok pub_res c =
     (case makeNewSlot tok (client c) of (res, cl) \<Rightarrow>
        let cid = getCorrelationID res in
        (case Publish pub_res [] (serviceName (client c))
                (request_message c (FormatInt (getTimeoutInt64 c)) cid) of
           (perr, es) \<Rightarrow>
             (case perr of
                Some err \<Rightarrow> (Inl err, cl, es @ [published_log c cid])
              | None \<Rightarrow> (Inr res, cl, es @ [published_log c cid]))))"

text \<open>
  The \<^verbatim>\<open>select\<close> of \<open>Sync\<close> races the slot's channel against \<^verbatim>\<open>time.After\<close>.
  \<open>reply\<close> is the environment: the time, counted from the start of the select, at which
  a response is ready on the slot's channel, and the response; \<open>None\<close> when none ever
  comes. A timer of a duration that is not positive is ready at once. When both are
  ready at the same instant the runtime picks one; \<open>pick_reply\<close> is its pick.
\<close>

type_synonym ClientResponse = Response

definition select_reply_or_timer ::
    "(Duration \<times> ClientResponse) option \<Rightarrow> bool \<Rightarrow> Duration \<Rightarrow> error + ClientResponse" where
  "select_reply_or_timer reply pick_reply d =
     (case reply of
        None \<Rightarrow> Inl ErrTimedOut
      | Some (t, response) \<Rightarrow>
          if t < max 0 d then Inr response
          else if max 0 d < t then Inl ErrTimedOut
          else if pick_reply then Inr response else Inl ErrTimedOut)"

text \<open>\<open>Sync\<close>: the deferred \<^verbatim>\<open>slot.Dispose()\<close> is set up after the error check, so it
  runs on the two paths that leave through the select.\<close>

definition Sync ::
    "string \<Rightarrow> error option \<Rightarrow> error option \<Rightarrow> (Duration \<times> ClientResponse) option \<Rightarrow> bool \<Rightarrow> call
       \<Rightarrow> (error + ClientResponse) \<times> Client \<times> effect list" where
  "Sync tok open_res pub_res reply pick_reply c =
     (case Async tok open_res pub_res c of
        (Inl err, cl, es) \<Rightarrow> (Inl err, cl, es)
      | (Inr slot, cl, es) \<Rightarrow>
          (select_reply_or_timer reply pick_reply (getTimeout c), Dispose slot cl, es))"

section \<open>The server\<close>

subsection \<open>The response writer\<close>

type_synonym Channel = nat

record responseWriter =
  channel :: "Channel option"
  rw_autoAck :: bool
  delivery :: Delivery

definition sending_log :: "log_level \<Rightarrow> Delivery \<Rightarrow> effect" where
  "sending_log lvl d =
     ELog lvl ''Sending response to queue %s. Slot: %d'' [dReplyTo d, dCorrelationId d]"

definition ack_log :: "Delivery \<Rightarrow> effect" where
  "ack_log d = ELog Debug ''Ack from slot %d'' [dCorrelationId d]"

text \<open>
  \<^verbatim>\<open>responseWriter.Write\<close> (the writer behind the \<^verbatim>\<open>ResponseWriter\<close> interface).
  It returns the error, the response as the call leaves it (the status code is written
  into its header set) and the effects. A nil \<^verbatim>\<open>channel\<close> is \<open>None\<close>.
\<close>

definition responseWriter_Write ::
    "responseWriter \<Rightarrow> error option \<Rightarrow> Response \<Rightarrow> error option \<times> Response \<times> effect list" where
  "responseWriter_Write rw pub_res res =
     (case channel rw of
        None \<Rightarrow> (Some ErrNilPublishChannel, res, [sending_log Debug (delivery rw)])
      | Some ch \<Rightarrow>
          let res1 = res\<lparr>headers := (headers res)(''statusCode'' \<mapsto> HInt (statusCode res))\<rparr> in
          (case Publish pub_res [] (dReplyTo (delivery rw))
                  \<lparr>Headers = headers res1,
                   Expiration = [],
                   ContentType = resContentType res1,
                   CorrelationId = dCorrelationId (delivery rw),
                   ReplyTo = [],
                   Body = content res1\<rparr> of
             (perr, es) \<Rightarrow>
               (case perr of
                  Some err \<Rightarrow> (Some err, res1, sending_log Debug (delivery rw) # es)
                | None \<Rightarrow>
                    (None, res1,
                     sending_log Debug (delivery rw) # es @
                       (if \<not> rw_autoAck rw then [EAck False, ack_log (delivery rw)] else [])))))"

text \<open>
  \<^verbatim>\<open>ResponseWriter.Write\<close> of \<^verbatim>\<open>server/response.go\<close>: the response is a struct
  without a header set, the published table holds the status code alone, and the
  error for a nil channel is made by \<^verbatim>\<open>errors.New\<close> with the same message.
\<close>

definition ResponseWriter_Write ::
    "responseWriter \<Rightarrow> error option \<Rightarrow> Response \<Rightarrow> error option \<times> effect list" where
  "ResponseWriter_Write rw pub_res res =
     (case channel rw of
        None \<Rightarrow>
          (Some (ErrorsNew ''No AMQP channel to publish the response to.''),
           [sending_log Info (delivery rw)])
      | Some ch \<Rightarrow>
          (case Publish pub_res [] (dReplyTo (delivery rw))
                  \<lparr>Headers = [''statusCode'' \<mapsto> HInt (statusCode res)],
                   Expiration = [],
                   ContentType = resContentType res,
                   CorrelationId = dCorrelationId (delivery rw),
                   ReplyTo = [],
                   Body = content res\<rparr> of
             (perr, es) \<Rightarrow>
               (case perr of
                  Some err \<Rightarrow> (Some err, sending_log Info (delivery rw) # es)
                | None \<Rightarrow>
                    (None,
                     sending_log Info (delivery rw) # es @
                       (if \<not> rw_autoAck rw then [EAck False, ack_log (delivery rw)] else [])))))"

subsection \<open>Handlers and extensions\<close>

text \<open>
  A user handler fills in the response; the second component is the wall time it ran,
  in nanoseconds. \<^verbatim>\<open>time.Since(started)\<close> reads Go's monotonic clock, so what it
  returns after the handler is that time.

  The handler that \<open>Register\<close> stores is a closure over the server pointer: it reads
  \<^verbatim>\<open>s.extensions\<close> when it is called, not when it is made. The extension list of the
  moment of the call is therefore its first argument.
\<close>

type_synonym MethodHandler = "Request \<Rightarrow> Response \<Rightarrow> Response \<times> nat"

type_synonym EffectiveHandler = "Extension list \<Rightarrow> Request \<Rightarrow> Response \<Rightarrow> Response \<times> effect list"

record server =
  srvServiceName :: string
  methods :: "string \<rightharpoonup> EffectiveHandler"
  autoAck :: bool
  extensions :: "Extension list"

definition GetStatusCode :: "Response \<Rightarrow> int" where
  "GetStatusCode res = statusCode res"

fun pipeThroughIncomingExtensions :: "Extension list \<Rightarrow> Request \<Rightarrow> effect list" where
  "pipeThroughIncomingExtensions [] req = []"
| "pipeThroughIncomingExtensions (ext # exts) req =
     EIncomingRequest ext req # pipeThroughIncomingExtensions exts req"

fun pipeThroughOutgoingExtensions :: "Extension list \<Rightarrow> Request \<Rightarrow> Response \<Rightarrow> Duration \<Rightarrow> effect list" where
  "pipeThroughOutgoingExtensions [] req res responseTime = []"
| "pipeThroughOutgoingExtensions (ext # exts) req res responseTime =
     EOutgoingResponse ext req res responseTime (GetStatusCode res)
       # pipeThroughOutgoingExtensions exts req res responseTime"

definition effective_handler :: "MethodHandler \<Rightarrow> EffectiveHandler" where
  "effective_handler handler exts req res =
     (let es1 = pipeThroughIncomingExtensions exts req in
      case handler req res of (res', took) \<Rightarrow>
        (res', es1 @ [EHandler req] @ pipeThroughOutgoingExtensions exts req res' (int took)))"

definition Register :: "server \<Rightarrow> string \<Rightarrow> MethodHandler \<Rightarrow> server" where
  "Register s m handler = s\<lparr>methods := (methods s)(m \<mapsto> effective_handler handler)\<rparr>"

definition AddExtension :: "server \<Rightarrow> Extension \<Rightarrow> server" where
  "AddExtension s ext = s\<lparr>extensions := extensions s @ [ext]\<rparr>"

subsection \<open>Dispatch\<close>

text \<open>
  Modelled from the spec: \<^verbatim>\<open>newResponse\<close> is not among the sources; the dispatch
  task "constructs an empty Response" (section 4.5).
\<close>

definition newResponse :: Response where
  "newResponse = \<lparr>content = [], resContentType = [], statusCode = 0, headers = Map.empty\<rparr>"

text \<open>
  \<open>processRequest\<close>, the body of one dispatch goroutine. \<open>open_res\<close> is the error of
  \<^verbatim>\<open>broker.openChannel\<close>, \<open>pub_res\<close> that of the reply's publish. The assertion
  \<^verbatim>\<open>d.Headers["X-Method"].(string)\<close> has no \<^verbatim>\<open>ok\<close> result: on a missing key (a nil
  interface) or a value of another type it panics. When the channel cannot be opened
  the code logs and goes on with a nil channel; the deferred \<^verbatim>\<open>ch.Close()\<close> then
  dereferences nil as the function returns.
\<close>

definition processRequest :: "server \<Rightarrow> error option \<Rightarrow> error option \<Rightarrow> Delivery \<Rightarrow> task" where
  "processRequest s open_res pub_res d =
     (case dHeaders d ''X-Method'' of
        Some (HString methodName) \<Rightarrow>
          (case methods s methodName of
             Some h \<Rightarrow>
               let req = \<lparr>rServiceName = srvServiceName s, rMethod = methodName,
                          rContentType = dContentType d, rBody = dBody d\<rparr>;
                   ch = (case open_res of None \<Rightarrow> Some (0::nat) | Some err \<Rightarrow> None);
                   es0 = (case open_res of
                            None \<Rightarrow> []
                          | Some err \<Rightarrow> [ELog Err ''Error opening channel for response: %s'' [Error err]]);
                   resWriter = \<lparr>channel = ch, rw_autoAck = autoAck s, delivery = d\<rparr>
               in (case h (extensions s) req newResponse of (res, es1) \<Rightarrow>
                    (case responseWriter_Write resWriter pub_res res of (werr, res', es2) \<Rightarrow>
                       let es3 = (case werr of
                                    None \<Rightarrow> []
                                  | Some err \<Rightarrow> [ELog Err ''Error writing response: %s'' [Error err]])
                       in (case ch of
                             Some c \<Rightarrow> (es0 @ es1 @ es2 @ es3 @ [EChannelClose], None)
                           | None \<Rightarrow> (es0 @ es1 @ es2 @ es3, Some PanicNilChannel))))
           | None \<Rightarrow>
               (ELog Err ''Method %s not found.'' [methodName]
                  # (if \<not> autoAck s then [EReject False] else []),
                None))
      | _ \<Rightarrow> ([], Some PanicTypeAssertion))"

text \<open>
  The inner loop of \<open>serve\<close>: \<^verbatim>\<open>for d := range s.requestChannel { go s.processRequest(d) }\<close>.
  Each delivery comes with the environment's answers for its task. The tasks are run
  here one after the other in the order of the deliveries. Neither \<open>processRequest\<close> nor
  \<open>serve\<close> defers a \<^verbatim>\<open>recover\<close>, and in Go a panic that leaves a goroutine
  unrecovered ends the whole program: the process is then \<open>Crashed\<close> and serves
  nothing more.
\<close>

datatype process = Alive "effect list" | Crashed "effect list" panic_value

fun serve_requestChannel ::
    "server \<Rightarrow> (error option \<times> error option \<times> Delivery) list \<Rightarrow> effect list \<Rightarrow> process" where
  "serve_requestChannel s [] acc = Alive acc"
| "serve_requestChannel s ((open_res, pub_res, d) # ds) acc =
     (case processRequest s open_res pub_res d of
        (es, None) \<Rightarrow> serve_requestChannel s ds (acc @ es)
      | (es, Some p) \<Rightarrow> Crashed (acc @ es) p)"

section \<open>Reading effect traces; example values\<close>

fun is_publish :: "effect \<Rightarrow> bool" where
  "is_publish (EPublish exchange key msg) = True"
| "is_publish e = False"

fun is_ack :: "effect \<Rightarrow> bool" where
  "is_ack (EAck multiple) = True"
| "is_ack e = False"

fun is_reject :: "effect \<Rightarrow> bool" where
  "is_reject (EReject requeue) = True"
| "is_reject e = False"

definition example_client :: Client where
  "example_client =
     \<lparr>serviceName = ''UserService'', defaultTTL = 2000000000,
      responseQueue_Name = ''amq.gen-1'', slots = Map.empty\<rparr>"

definition example_call :: call where
  "example_call = WithBody (newCall example_client ''doSomething'') [104, 105]"

definition example_delivery :: Delivery where
  "example_delivery =
     \<lparr>dHeaders = [''X-Method'' \<mapsto> HString ''doSomething''], dContentType = ''application/octet-stream'',
      dCorrelationId = ''tok1'', dReplyTo = ''amq.gen-1'', dBody = [104, 105]\<rparr>"

definition example_server :: server where
  "example_server =
     \<lparr>srvServiceName = ''UserService'', methods = Map.empty, autoAck = False, extensions = [1, 2]\<rparr>"

definition example_response :: Response where
  "example_response =
     \<lparr>content = [104, 105], resContentType = ''application/octet-stream'', statusCode = 200,
      headers = Map.empty\<rparr>"

definition example_writer :: responseWriter where
  "example_writer = \<lparr>channel = Some 1, rw_autoAck = False, delivery = example_delivery\<rparr>"

definition example_handler :: MethodHandler where
  "example_handler req res = (res\<lparr>content := rBody req, statusCode := 200\<rparr>, 1500)"


section \<open>Decimal strings\<close>

lemma digit_value_digit: "d < 10 \<Longrightarrow> digit_value (digit d) = d"
proof -
  assume "d < 10"
  then consider "d = 0" | "d = 1" | "d = 2" | "d = 3" | "d = 4" | "d = 5" | "d = 6"
    | "d = 7" | "d = 8" | "d = 9" by atomize_elim presburger
  then show ?thesis by cases (simp_all add: digit_value_def digit_def)
qed

lemma digit_not_minus: "d < 10 \<Longrightarrow> digit d \<noteq> CHR ''-''"
proof -
  assume "d < 10"
  then consider "d = 0" | "d = 1" | "d = 2" | "d = 3" | "d = 4" | "d = 5" | "d = 6"
    | "d = 7" | "d = 8" | "d = 9" by atomize_elim presburger
  then show ?thesis by cases (simp_all add: digit_def)
qed

lemma parse_decimal_snoc: "parse_decimal (s @ [c]) = 10 * parse_decimal s + digit_value c"
  by (simp add: parse_decimal_def)

lemma parse_decimal_decimal: "parse_decimal (decimal n) = n"
proof (induction n rule: decimal.induct)
  case (1 n)
  show ?case
  proof (cases "n < 10")
    case True
    then have "decimal n = [digit n]" by (simp add: decimal.simps)
    with True show ?thesis by (simp add: parse_decimal_def digit_value_digit)
  next
    case False
    with 1 have ih: "parse_decimal (decimal (n div 10)) = n div 10" by simp
    from False have "decimal n = decimal (n div 10) @ [digit (n mod 10)]"
      by (subst decimal.simps) simp
    with ih show ?thesis
      by (simp add: parse_decimal_snoc digit_value_digit)
  qed
qed

lemma decimal_head: "\<exists>d cs. d < 10 \<and> decimal n = digit d # cs"
proof (induction n rule: decimal.induct)
  case (1 n)
  show ?case
  proof (cases "n < 10")
    case True
    then have "decimal n = [digit n]" by (simp add: decimal.simps)
    with True show ?thesis by blast
  next
    case False
    with 1 obtain d cs where d: "d < 10" "decimal (n div 10) = digit d # cs" by auto
    from False have "decimal n = decimal (n div 10) @ [digit (n mod 10)]"
      by (subst decimal.simps) simp
    with d show ?thesis by auto
  qed
qed

lemma ParseInt_FormatInt: "ParseInt (FormatInt i) = i"
proof (cases "i < 0")
  case True
  then show ?thesis by (simp add: ParseInt_def FormatInt_def parse_decimal_decimal)
next
  case False
  obtain d cs where d: "d < 10" "decimal (nat i) = digit d # cs"
    using decimal_head by blast
  have "parse_decimal (digit d # cs) = nat i"
    using parse_decimal_decimal [of "nat i"] d by simp
  with False d show ?thesis
    by (simp add: ParseInt_def FormatInt_def digit_not_minus)
qed

lemma sdiv_Millisecond_nonneg: "0 \<le> t \<Longrightarrow> t sdiv Millisecond = t div Millisecond"
  by (simp add: signed_divide_int_def Millisecond_def sgn_if)

lemma FormatInt_zero: "FormatInt 0 = ''0''"
  by (simp add: FormatInt_def decimal.simps digit_def)

lemma ParseInt_zero: "ParseInt ''0'' = 0"
  by (simp add: ParseInt_def parse_decimal_def digit_value_def)

lemma FormatInt_eq_zero: "FormatInt k = ''0'' \<Longrightarrow> k = 0"
  using ParseInt_FormatInt [of k] ParseInt_zero by simp

lemma FormatInt_2000: "FormatInt 2000 = ''2000''"
  by (simp add: FormatInt_def decimal.simps digit_def)

lemma FormatInt_35: "FormatInt 35 = ''35''"
  by (simp add: FormatInt_def decimal.simps digit_def)

lemma getTimeoutMilliseconds_eq: "getTimeoutMilliseconds c = getTimeout c sdiv Millisecond"
  by (simp add: getTimeoutMilliseconds_def getTimeout_def)

lemma getTimeoutInt64_eq: "getTimeoutInt64 c = getTimeout c sdiv Millisecond"
  by (simp add: getTimeoutInt64_def getTimeout_def)

lemma Async_ok:
  "Async tok None None c =
     (Inr \<lparr>correlationID = tok\<rparr>,
      (client c)\<lparr>slots := (slots (client c))(tok \<mapsto> \<lparr>correlationID = tok\<rparr>)\<rparr>,
      [EPublish [] (serviceName (client c))
         (request_message c (FormatInt (getTimeout c sdiv Millisecond)) tok),
       published_log c tok, EChannelClose])"
  by (simp add: Async_def NewSlot_def createSlot_def Publish_def getCorrelationID_def
      getTimeoutMilliseconds_eq Let_def)

lemma client_Async_ok:
  "client_Async tok None c =
     (Inr \<lparr>correlationID = tok\<rparr>,
      (client c)\<lparr>slots := (slots (client c))(tok \<mapsto> \<lparr>correlationID = tok\<rparr>)\<rparr>,
      [EPublish [] (serviceName (client c))
         (request_message c (FormatInt (getTimeout c sdiv Millisecond)) tok),
       published_log c tok])"
  by (simp add: client_Async_def makeNewSlot_def createSlot_def Publish_def getCorrelationID_def
      getTimeoutInt64_eq Let_def)

lemma Async_publish_error:
  "Async tok None (Some err) c =
     (Inl err,
      (client c)\<lparr>slots := (slots (client c))(tok \<mapsto> \<lparr>correlationID = tok\<rparr>)\<rparr>,
      [published_log c tok, EChannelClose])"
  by (simp add: Async_def NewSlot_def createSlot_def Publish_def getCorrelationID_def Let_def)

lemma Async_open_error:
  "Async tok (Some err) pub_res c =
     (Inl err,
      (client c)\<lparr>slots := (slots (client c))(tok \<mapsto> \<lparr>correlationID = tok\<rparr>)\<rparr>, [])"
  by (simp add: Async_def NewSlot_def createSlot_def getCorrelationID_def Let_def)

lemma client_Async_publish_error:
  "client_Async tok (Some err) c =
     (Inl err,
      (client c)\<lparr>slots := (slots (client c))(tok \<mapsto> \<lparr>correlationID = tok\<rparr>)\<rparr>,
      [published_log c tok])"
  by (simp add: client_Async_def makeNewSlot_def createSlot_def Publish_def getCorrelationID_def Let_def)

lemma sdiv_Millisecond_pos: "Millisecond \<le> t \<Longrightarrow> 0 < t sdiv Millisecond"
proof -
  assume a: "Millisecond \<le> t"
  then have "0 \<le> t" by (simp add: Millisecond_def)
  then have "t sdiv Millisecond = t div Millisecond" by (rule sdiv_Millisecond_nonneg)
  moreover from a have "0 < t div Millisecond"
    by (simp add: Millisecond_def pos_imp_zdiv_pos_iff)
  ultimately show ?thesis by simp
qed

lemma sdiv_Millisecond_below: "0 \<le> t \<Longrightarrow> t < Millisecond \<Longrightarrow> t sdiv Millisecond = 0"
proof -
  assume a: "0 \<le> t" "t < Millisecond"
  from a(1) have "t sdiv Millisecond = t div Millisecond" by (rule sdiv_Millisecond_nonneg)
  with a show ?thesis by simp
qed

section \<open>Calls, slots and timeouts\<close>

lemma example_call_client: "client example_call = example_client"
  by (simp add: example_call_def WithBody_def newCall_def)

lemma example_call_getTimeout: "getTimeout example_call = 2000000000"
  by (simp add: getTimeout_def example_call_def WithBody_def newCall_def example_client_def)

lemma Sync_ok:
  "Sync tok None None reply pick c =
     (select_reply_or_timer reply pick (getTimeout c),
      (client c)\<lparr>slots := (slots (client c))(tok := None)\<rparr>,
      [EPublish [] (serviceName (client c))
         (request_message c (FormatInt (getTimeout c sdiv Millisecond)) tok),
       published_log c tok, EChannelClose])"
  by (simp add: Sync_def Async_ok Dispose_def dispose_def)

lemma Sync_publish_error:
  "Sync tok None (Some err) reply pick c =
     (Inl err,
      (client c)\<lparr>slots := (slots (client c))(tok \<mapsto> \<lparr>correlationID = tok\<rparr>)\<rparr>,
      [published_log c tok, EChannelClose])"
  by (simp add: Sync_def Async_publish_error)

lemma Sync_open_error:
  "Sync tok (Some err) pub_res reply pick c =
     (Inl err,
      (client c)\<lparr>slots := (slots (client c))(tok \<mapsto> \<lparr>correlationID = tok\<rparr>)\<rparr>, [])"
  by (simp add: Sync_def Async_open_error)

text \<open>
  The two exits of \<open>Sync\<close> through the select, with the request published:
  \<open>ErrTimedOut\<close> when no response ever comes or when it comes after the timer of the
  effective timeout has fired, the response when it comes before; either way the slot
  is disposed and its token is no longer registered.
\<close>

lemma Sync_select_exits:
  "fst (Sync tok None None None pick c) = Inl ErrTimedOut \<and>
   (max 0 (getTimeout c) < t \<longrightarrow>
      fst (Sync tok None None (Some (t, response)) pick c) = Inl ErrTimedOut) \<and>
   (t < max 0 (getTimeout c) \<longrightarrow>
      fst (Sync tok None None (Some (t, response)) pick c) = Inr response) \<and>
   lookup tok (slots (fst (snd (Sync tok None None reply pick c)))) = None"
  by (auto simp: Sync_ok lookup_def select_reply_or_timer_def)

section \<open>Dispatch and the extension pipeline\<close>

lemma processRequest_no_string_method:
  "\<forall>m. dHeaders d ''X-Method'' \<noteq> Some (HString m) \<Longrightarrow>
     processRequest s open_res pub_res d = ([], Some PanicTypeAssertion)"
  by (simp add: processRequest_def split: option.split header_value.split)





text \<open>
  One whole dispatch: a method registered before two extensions are added, served
  from a delivery with manual acknowledgment. The extensions added after the
  registration are called, in their order, around the handler.
\<close>

lemma processRequest_registered_example:
  "(let r = \<lparr>rServiceName = ''UserService'', rMethod = ''doSomething'',
             rContentType = ''application/octet-stream'', rBody = [104, 105]\<rparr>;
        res = newResponse\<lparr>content := [104, 105], statusCode := 200\<rparr>
    in processRequest
         (foldl AddExtension
            (Register (example_server\<lparr>extensions := []\<rparr>) ''doSomething'' example_handler) [1, 2])
         None None example_delivery =
       ([EIncomingRequest 1 r, EIncomingRequest 2 r, EHandler r,
         EOutgoingResponse 1 r res 1500 200, EOutgoingResponse 2 r res 1500 200,
         sending_log Debug example_delivery,
         EPublish [] ''amq.gen-1''
           \<lparr>Headers = [''statusCode'' \<mapsto> HInt 200], Expiration = [], ContentType = [],
            CorrelationId = ''tok1'', ReplyTo = [], Body = [104, 105]\<rparr>,
         EAck False, ack_log example_delivery, EChannelClose], None))"
  by (simp add: processRequest_def Register_def AddExtension_def example_server_def
      example_delivery_def effective_handler_def example_handler_def newResponse_def
      responseWriter_Write_def Publish_def GetStatusCode_def Let_def sending_log_def ack_log_def)

section \<open>The claims\<close>

text \<open>
  C1. What \<open>Async\<close> leaves behind when the channel refuses the publish (or, in
  package porthos, when no channel can be opened): it returns the error and no slot,
  and it never disposes the slot it made, so the token is still registered afterwards.
  The claim says that no entry remains.
\<close>

theorem Async_publish_error_leaves_slot:
  "Async tok None (Some err) c =
     (Inl err,
      (client c)\<lparr>slots := (slots (client c))(tok \<mapsto> \<lparr>correlationID = tok\<rparr>)\<rparr>,
      [published_log c tok, EChannelClose]) \<and>
   lookup tok (slots (fst (snd (Async tok None (Some err) c)))) = Some \<lparr>correlationID = tok\<rparr> \<and>
   lookup tok (slots (fst (snd (Async tok (Some err) pub_res c)))) = Some \<lparr>correlationID = tok\<rparr> \<and>
   lookup tok (slots (fst (snd (client_Async tok (Some err) c)))) = Some \<lparr>correlationID = tok\<rparr>"
  by (simp add: Async_publish_error Async_open_error client_Async_publish_error lookup_def)

text \<open>
  C2 (as amended). A delivery whose \<^verbatim>\<open>X-Method\<close> header is missing or is not a
  string makes its dispatch task panic at the type assertion, before any lookup, publish,
  acknowledgment or rejection. Nothing recovers the panic, so it is not confined to
  the task: the server process ends with it and serves no later delivery.
\<close>

theorem processRequest_method_header_not_string:
  "\<forall>m. dHeaders d ''X-Method'' \<noteq> Some (HString m) \<Longrightarrow>
     processRequest s open_res pub_res d = ([], Some PanicTypeAssertion) \<and>
     serve_requestChannel s ((open_res, pub_res, d) # ds) acc = Crashed acc PanicTypeAssertion"
  by (simp add: processRequest_no_string_method)

text \<open>
  The amended C2 at a delivery whose \<^verbatim>\<open>X-Method\<close> header is the number 7.
\<close>

theorem processRequest_method_header_not_string_witness:
  "(\<forall>m. dHeaders (example_delivery\<lparr>dHeaders := [''X-Method'' \<mapsto> HInt 7]\<rparr>) ''X-Method''
        \<noteq> Some (HString m)) \<and>
   processRequest example_server None None (example_delivery\<lparr>dHeaders := [''X-Method'' \<mapsto> HInt 7]\<rparr>) =
     ([], Some PanicTypeAssertion) \<and>
   serve_requestChannel example_server
     [(None, None, example_delivery\<lparr>dHeaders := [''X-Method'' \<mapsto> HInt 7]\<rparr>),
      (None, None, example_delivery)] [] =
     Crashed [] PanicTypeAssertion"
proof -
  have h: "\<forall>m. dHeaders (example_delivery\<lparr>dHeaders := [''X-Method'' \<mapsto> HInt 7]\<rparr>) ''X-Method''
        \<noteq> Some (HString m)"
    by simp
  from h processRequest_method_header_not_string [OF h, of example_server None None
      "[(None, None, example_delivery)]" "[]"]
  show ?thesis by simp
qed

text \<open>
  C2 as stated fails: serving one delivery that has no headers at all ends the
  process.
\<close>

theorem serve_missing_method_header_counterexample:
  "serve_requestChannel example_server
     [(None, None, example_delivery\<lparr>dHeaders := Map.empty\<rparr>)] [] =
   Crashed [] PanicTypeAssertion"
  by (simp add: processRequest_def)

text \<open>
  C3. \<open>Sync\<close> on the exit that a failed publish (or a channel that cannot be
  opened) takes: it returns that error, and the token of the slot that \<open>Async\<close>
  made is still registered afterwards. The deferred \<^verbatim>\<open>slot.Dispose()\<close> covers the
  exits through the select only. The claim says that every exit, this one included,
  leaves no registry entry behind.
\<close>

theorem Sync_publish_error_leaves_slot:
  "fst (Sync tok None (Some err) reply pick c) = Inl err \<and>
   lookup tok (slots (fst (snd (Sync tok None (Some err) reply pick c)))) =
     Some \<lparr>correlationID = tok\<rparr> \<and>
   fst (Sync tok (Some err) pub_res reply pick c) = Inl err \<and>
   lookup tok (slots (fst (snd (Sync tok (Some err) pub_res reply pick c)))) =
     Some \<lparr>correlationID = tok\<rparr>"
  by (simp add: Sync_publish_error Sync_open_error lookup_def)

text \<open>
  The same on the example call, with the publish refused because the channel is
  closed.
\<close>

lemma Sync_publish_error_example:
  "fst (Sync ''tok1'' None (Some (TransportError ''channel closed'')) None False example_call) =
     Inl (TransportError ''channel closed'') \<and>
   lookup ''tok1''
     (slots (fst (snd (Sync ''tok1'' None (Some (TransportError ''channel closed'')) None False
                         example_call)))) =
     Some \<lparr>correlationID = ''tok1''\<rparr>"
  by (simp add: Sync_publish_error lookup_def)



text \<open>
  C5. With a channel bound, both writers publish the response to the delivery's
  reply-to queue under the delivery's correlation ID with the status code in the
  published header table (\<open>responseWriter.Write\<close> also stores it in the response's own
  header set). After a successful publish the delivery is acknowledged exactly when
  the writer is not in auto-ack mode. When the publish fails the error is returned and
  nothing is acknowledged.
\<close>

theorem Write_bound_channel:
  "channel rw = Some ch \<Longrightarrow>
     responseWriter_Write rw None res =
       (None,
        res\<lparr>headers := (headers res)(''statusCode'' \<mapsto> HInt (statusCode res))\<rparr>,
        [sending_log Debug (delivery rw),
         EPublish [] (dReplyTo (delivery rw))
           \<lparr>Headers = (headers res)(''statusCode'' \<mapsto> HInt (statusCode res)),
            Expiration = [],
            ContentType = resContentType res,
            CorrelationId = dCorrelationId (delivery rw),
            ReplyTo = [],
            Body = content res\<rparr>]
          @ (if rw_autoAck rw then [] else [EAck False, ack_log (delivery rw)])) \<and>
     responseWriter_Write rw (Some err) res =
       (Some err,
        res\<lparr>headers := (headers res)(''statusCode'' \<mapsto> HInt (statusCode res))\<rparr>,
        [sending_log Debug (delivery rw)]) \<and>
     filter is_ack (snd (snd (responseWriter_Write rw (Some err) res))) = [] \<and>
     ResponseWriter_Write rw None res =
       (None,
        [sending_log Info (delivery rw),
         EPublish [] (dReplyTo (delivery rw))
           \<lparr>Headers = [''statusCode'' \<mapsto> HInt (statusCode res)],
            Expiration = [],
            ContentType = resContentType res,
            CorrelationId = dCorrelationId (delivery rw),
            ReplyTo = [],
            Body = content res\<rparr>]
          @ (if rw_autoAck rw then [] else [EAck False, ack_log (delivery rw)])) \<and>
     ResponseWriter_Write rw (Some err) res = (Some err, [sending_log Info (delivery rw)]) \<and>
     filter is_ack (snd (ResponseWriter_Write rw (Some err) res)) = []"
  by (simp add: responseWriter_Write_def ResponseWriter_Write_def Publish_def Let_def sending_log_def)

text \<open>
  C5 on the example writer: manual acknowledgment, auto-ack, and a refused publish.
\<close>

theorem Write_bound_channel_witness:
  "channel example_writer = Some 1 \<and>
   fst (responseWriter_Write example_writer None example_response) = None \<and>
   headers (fst (snd (responseWriter_Write example_writer None example_response))) ''statusCode'' =
     Some (HInt 200) \<and>
   filter is_ack (snd (snd (responseWriter_Write example_writer None example_response))) = [EAck False] \<and>
   filter is_ack (snd (snd (responseWriter_Write (example_writer\<lparr>rw_autoAck := True\<rparr>) None example_response))) = [] \<and>
   responseWriter_Write example_writer (Some (TransportError ''channel closed'')) example_response =
     (Some (TransportError ''channel closed''),
      example_response\<lparr>headers := [''statusCode'' \<mapsto> HInt 200]\<rparr>,
      [sending_log Debug example_delivery]) \<and>
   ResponseWriter_Write example_writer (Some (TransportError ''channel closed'')) example_response =
     (Some (TransportError ''channel closed''), [sending_log Info example_delivery])"
proof -
  have h: "channel example_writer = Some 1"
    "channel (example_writer\<lparr>rw_autoAck := True\<rparr>) = Some 1"
    by (simp_all add: example_writer_def)
  have d: "delivery example_writer = example_delivery" "\<not> rw_autoAck example_writer"
    by (simp_all add: example_writer_def)
  have r: "statusCode example_response = 200" "headers example_response = Map.empty"
    by (simp_all add: example_response_def)
  from h d r
    Write_bound_channel [OF h(1), of example_response "TransportError ''channel closed''"]
    Write_bound_channel [OF h(2), of example_response "TransportError ''channel closed''"]
  show ?thesis by (simp add: sending_log_def ack_log_def)
qed

text \<open>
  C6. With no channel bound, \<open>responseWriter.Write\<close> returns
  \<open>ErrNilPublishChannel\<close> at once; the older \<open>ResponseWriter.Write\<close> returns an error
  with the same message. Neither publishes nor acknowledges anything.
\<close>

theorem Write_nil_channel:
  "channel rw = None \<Longrightarrow>
     responseWriter_Write rw pub_res res =
       (Some ErrNilPublishChannel, res, [sending_log Debug (delivery rw)]) \<and>
     filter is_publish (snd (snd (responseWriter_Write rw pub_res res))) = [] \<and>
     filter is_ack (snd (snd (responseWriter_Write rw pub_res res))) = [] \<and>
     ResponseWriter_Write rw pub_res res =
       (Some (ErrorsNew ''No AMQP channel to publish the response to.''),
        [sending_log Info (delivery rw)]) \<and>
     Error (ErrorsNew ''No AMQP channel to publish the response to.'') = Error ErrNilPublishChannel \<and>
     filter is_publish (snd (ResponseWriter_Write rw pub_res res)) = [] \<and>
     filter is_ack (snd (ResponseWriter_Write rw pub_res res)) = []"
  by (simp add: responseWriter_Write_def ResponseWriter_Write_def sending_log_def)

text \<open>
  C6 on the example writer with its channel removed.
\<close>

theorem Write_nil_channel_witness:
  "channel (example_writer\<lparr>channel := None\<rparr>) = None \<and>
   responseWriter_Write (example_writer\<lparr>channel := None\<rparr>) None example_response =
     (Some ErrNilPublishChannel, example_response, [sending_log Debug example_delivery]) \<and>
   filter is_ack
     (snd (snd (responseWriter_Write (example_writer\<lparr>channel := None\<rparr>) None example_response))) = []"
proof -
  have h: "channel (example_writer\<lparr>channel := None\<rparr>) = None" by simp
  have d: "delivery (example_writer\<lparr>channel := None\<rparr>) = example_delivery"
    by (simp add: example_writer_def)
  from h d Write_nil_channel [OF h, of None example_response]
  show ?thesis by (simp add: sending_log_def)
qed

text \<open>
  C7. A delivery that names a method with no registered handler: the task logs an
  error and, when the server acknowledges by hand, rejects the delivery without
  requeue; under auto-ack it only logs. It publishes and acknowledges nothing and
  returns normally, so the server goes on to the next delivery.
\<close>

theorem processRequest_unknown_method:
  "dHeaders d ''X-Method'' = Some (HString m) \<Longrightarrow> methods s m = None \<Longrightarrow>
     processRequest s open_res pub_res d =
       (ELog Err ''Method %s not found.'' [m] # (if autoAck s then [] else [EReject False]), None) \<and>
     filter is_publish (fst (processRequest s open_res pub_res d)) = [] \<and>
     filter is_ack (fst (processRequest s open_res pub_res d)) = [] \<and>
     serve_requestChannel s ((open_res, pub_res, d) # ds) acc =
       serve_requestChannel s ds
         (acc @ ELog Err ''Method %s not found.'' [m] # (if autoAck s then [] else [EReject False]))"
  by (simp add: processRequest_def)

text \<open>
  C7 on the example server, which has no method registered, with and without
  auto-ack.
\<close>

theorem processRequest_unknown_method_witness:
  "dHeaders example_delivery ''X-Method'' = Some (HString ''doSomething'') \<and>
   methods example_server ''doSomething'' = None \<and>
   processRequest example_server None None example_delivery =
     ([ELog Err ''Method %s not found.'' [''doSomething''], EReject False], None) \<and>
   processRequest (example_server\<lparr>autoAck := True\<rparr>) None None example_delivery =
     ([ELog Err ''Method %s not found.'' [''doSomething'']], None) \<and>
   serve_requestChannel example_server [(None, None, example_delivery)] [] =
     Alive [ELog Err ''Method %s not found.'' [''doSomething''], EReject False]"
proof -
  have h: "dHeaders example_delivery ''X-Method'' = Some (HString ''doSomething'')"
    by (simp add: example_delivery_def)
  have n: "methods example_server ''doSomething'' = None"
    "methods (example_server\<lparr>autoAck := True\<rparr>) ''doSomething'' = None"
    by (simp_all add: example_server_def)
  have a: "\<not> autoAck example_server" by (simp add: example_server_def)
  from h n a
    processRequest_unknown_method [OF h n(1), of None None "[]" "[]"]
    processRequest_unknown_method [OF h n(2), of None None "[]" "[]"]
  show ?thesis by simp
qed

text \<open>
  C8 (as amended). Given a value that \<^verbatim>\<open>json.Marshal\<close> rejects, the builder of
  package porthos (\<open>WithArgs\<close>, \<open>WithMap\<close>, \<open>WithStruct\<close>, all through
  \<open>withJSON\<close>) panics with the encoder's error. The builder of package client
  (\<open>WithArgs\<close>, \<open>WithMap\<close>) discards the error instead: it returns the call with an
  empty body and its content type set.
\<close>

theorem unserializable_payload:
  "Marshal v = Inl err \<Longrightarrow>
     withJSON Marshal c v = Panics (PanicError err) \<and>
     WithArgs Marshal c v = Panics (PanicError err) \<and>
     WithMap Marshal c v = Panics (PanicError err) \<and>
     WithStruct Marshal c v = Panics (PanicError err) \<and>
     client_WithArgs Marshal c v =
       Returns (c\<lparr>body := [], contentType := ''application/porthos-args''\<rparr>) \<and>
     client_WithMap Marshal c v =
       Returns (c\<lparr>body := [], contentType := ''application/porthos-map''\<rparr>)"
  by (simp add: withJSON_def WithArgs_def WithMap_def WithStruct_def client_WithArgs_def
      client_WithMap_def marshal_discarding_error_def)

text \<open>
  The amended C8 with an encoder that rejects every value.
\<close>

theorem unserializable_payload_witness:
  "(Inl (TransportError ''json: unsupported type: chan int'') :: error + bytes) =
     Inl (TransportError ''json: unsupported type: chan int'') \<and>
   WithArgs Inl example_call (TransportError ''json: unsupported type: chan int'') =
     Panics (PanicError (TransportError ''json: unsupported type: chan int'')) \<and>
   WithMap Inl example_call (TransportError ''json: unsupported type: chan int'') =
     Panics (PanicError (TransportError ''json: unsupported type: chan int'')) \<and>
   WithStruct Inl example_call (TransportError ''json: unsupported type: chan int'') =
     Panics (PanicError (TransportError ''json: unsupported type: chan int'')) \<and>
   client_WithMap Inl example_call (TransportError ''json: unsupported type: chan int'') =
     Returns (example_call\<lparr>body := [], contentType := ''application/porthos-map''\<rparr>)"
  using unserializable_payload [of Inl "TransportError ''json: unsupported type: chan int''"
      "TransportError ''json: unsupported type: chan int''" example_call]
  by simp

text \<open>
  C8 as stated fails for package client: \<open>WithArgs\<close> returns normally.
\<close>

theorem client_WithArgs_counterexample:
  "client_WithArgs Inl example_call (TransportError ''json: unsupported type: chan int'') =
     Returns (example_call\<lparr>body := [], contentType := ''application/porthos-args''\<rparr>)"
  by (simp add: client_WithArgs_def marshal_discarding_error_def)

text \<open>
  C9. The request that \<open>Async\<close> publishes (in either package) carries the slot's correlation ID, the
  client's response queue name as reply-to, and as expiration the effective timeout in
  whole milliseconds written in decimal (reading the string back gives the number).
  The effective timeout is the call's own timeout when that is positive, which is how
  the code tells a timeout that was set, and the client's default TTL otherwise.
\<close>

theorem Async_published_request:
  "(\<exists>slot cl msg.
      Async tok None None c =
        (Inr slot, cl, [EPublish [] (serviceName (client c)) msg, published_log c tok, EChannelClose]) \<and>
      Headers msg ''X-Method'' = Some (HString (call_method c)) \<and>
      CorrelationId msg = getCorrelationID slot \<and>
      ReplyTo msg = responseQueue_Name (client c) \<and>
      Expiration msg = FormatInt (getTimeout c sdiv Millisecond) \<and>
      ParseInt (Expiration msg) = getTimeout c sdiv Millisecond) \<and>
   (\<exists>slot cl msg.
      client_Async tok None c =
        (Inr slot, cl, [EPublish [] (serviceName (client c)) msg, published_log c tok]) \<and>
      CorrelationId msg = getCorrelationID slot \<and>
      ReplyTo msg = responseQueue_Name (client c) \<and>
      Expiration msg = FormatInt (getTimeout c sdiv Millisecond)) \<and>
   getTimeout c = (if 0 < timeout c then timeout c else defaultTTL (client c))"
  by (simp add: Async_ok client_Async_ok request_message_def getCorrelationID_def
      ParseInt_FormatInt getTimeout_def)

text \<open>
  C9 on the example call: with a timeout of 35 milliseconds set the expiration is
  \<open>35\<close>; with none set it is that of the default TTL, \<open>2000\<close>.
\<close>

theorem Async_published_request_witness:
  "(\<exists>slot cl msg.
      Async ''tok1'' None None (WithTimeout example_call 35000000) =
        (Inr slot, cl,
         [EPublish [] ''UserService'' msg,
          published_log (WithTimeout example_call 35000000) ''tok1'', EChannelClose]) \<and>
      CorrelationId msg = ''tok1'' \<and> getCorrelationID slot = ''tok1'' \<and>
      ReplyTo msg = ''amq.gen-1'' \<and> Expiration msg = ''35'') \<and>
   getTimeout example_call = 2000000000 \<and>
   FormatInt (getTimeout example_call sdiv Millisecond) = ''2000''"
proof -
  have c: "client (WithTimeout example_call 35000000) = example_client"
    by (simp add: WithTimeout_def example_call_client)
  have g: "getTimeout (WithTimeout example_call 35000000) = 35000000"
    by (simp add: getTimeout_def WithTimeout_def)
  have ms: "(35000000::int) sdiv Millisecond = 35" "(2000000000::int) sdiv Millisecond = 2000"
    by (simp_all add: Millisecond_def signed_divide_int_def)
  from Async_published_request [of "''tok1''" "WithTimeout example_call 35000000"]
  show ?thesis
    unfolding c g ms
    by (auto simp: example_client_def FormatInt_35 FormatInt_2000 example_call_getTimeout ms
        Async_ok client_Async_ok c g getCorrelationID_def)
qed

text \<open>
  C10 (as amended). A timeout that is zero or negative, stored by \<open>WithTimeout\<close>,
  is ignored: \<open>getTimeout\<close>, \<open>getTimeoutMilliseconds\<close> and the expiration that
  \<open>Async\<close> publishes are those of the client's default TTL. The timeout is then not
  zero when the default TTL is positive. The expiration is not \<open>0\<close> when the default
  TTL is at least a millisecond, and it is \<open>0\<close> when the default TTL is shorter than
  that: the division by a millisecond truncates.
\<close>

theorem WithTimeout_not_positive_falls_back:
  "t \<le> 0 \<Longrightarrow>
     getTimeout (WithTimeout c t) = defaultTTL (client c) \<and>
     getTimeoutMilliseconds (WithTimeout c t) = defaultTTL (client c) sdiv Millisecond \<and>
     (\<exists>slot cl msg.
        Async tok None None (WithTimeout c t) =
          (Inr slot, cl,
           [EPublish [] (serviceName (client c)) msg, published_log (WithTimeout c t) tok,
            EChannelClose]) \<and>
        Expiration msg = FormatInt (defaultTTL (client c) sdiv Millisecond)) \<and>
     (0 < defaultTTL (client c) \<longrightarrow> getTimeout (WithTimeout c t) \<noteq> 0) \<and>
     (Millisecond \<le> defaultTTL (client c) \<longrightarrow>
        FormatInt (getTimeoutMilliseconds (WithTimeout c t)) \<noteq> ''0'') \<and>
     (0 \<le> defaultTTL (client c) \<and> defaultTTL (client c) < Millisecond \<longrightarrow>
        FormatInt (getTimeoutMilliseconds (WithTimeout c t)) = ''0'')"
proof -
  assume t: "t \<le> 0"
  have g: "getTimeout (WithTimeout c t) = defaultTTL (client c)"
    using t by (simp add: getTimeout_def WithTimeout_def)
  have m: "getTimeoutMilliseconds (WithTimeout c t) = defaultTTL (client c) sdiv Millisecond"
    using g by (simp add: getTimeoutMilliseconds_eq)
  have cl: "client (WithTimeout c t) = client c"
    by (simp add: WithTimeout_def)
  have a: "\<exists>slot cl msg.
        Async tok None None (WithTimeout c t) =
          (Inr slot, cl,
           [EPublish [] (serviceName (client c)) msg, published_log (WithTimeout c t) tok,
            EChannelClose]) \<and>
        Expiration msg = FormatInt (defaultTTL (client c) sdiv Millisecond)"
    by (simp add: Async_ok g cl request_message_def)
  have z: "Millisecond \<le> defaultTTL (client c) \<longrightarrow>
        FormatInt (getTimeoutMilliseconds (WithTimeout c t)) \<noteq> ''0''"
  proof
    assume "Millisecond \<le> defaultTTL (client c)"
    then have "0 < defaultTTL (client c) sdiv Millisecond" by (rule sdiv_Millisecond_pos)
    then show "FormatInt (getTimeoutMilliseconds (WithTimeout c t)) \<noteq> ''0''"
      using FormatInt_eq_zero [of "defaultTTL (client c) sdiv Millisecond"] m by auto
  qed
  have b: "0 \<le> defaultTTL (client c) \<and> defaultTTL (client c) < Millisecond \<longrightarrow>
        FormatInt (getTimeoutMilliseconds (WithTimeout c t)) = ''0''"
    using m by (simp add: sdiv_Millisecond_below FormatInt_zero)
  from g m a z b show ?thesis by simp
qed

text \<open>
  The amended C10 on the example call (default TTL two seconds) with
  \<open>WithTimeout 0\<close>, and on a client whose default TTL is half a millisecond.
\<close>

theorem WithTimeout_not_positive_falls_back_witness:
  "(0::int) \<le> 0 \<and>
   getTimeout (WithTimeout example_call 0) = 2000000000 \<and>
   getTimeoutMilliseconds (WithTimeout example_call 0) = 2000 \<and>
   0 < defaultTTL (client example_call) \<and>
   getTimeout (WithTimeout example_call 0) \<noteq> 0 \<and>
   Millisecond \<le> defaultTTL (client example_call) \<and>
   FormatInt (getTimeoutMilliseconds (WithTimeout example_call 0)) \<noteq> ''0'' \<and>
   0 \<le> defaultTTL (client (example_call\<lparr>client := example_client\<lparr>defaultTTL := 500000\<rparr>\<rparr>)) \<and>
   defaultTTL (client (example_call\<lparr>client := example_client\<lparr>defaultTTL := 500000\<rparr>\<rparr>)) < Millisecond \<and>
   FormatInt (getTimeoutMilliseconds
     (WithTimeout (example_call\<lparr>client := example_client\<lparr>defaultTTL := 500000\<rparr>\<rparr>) (- 1))) = ''0''"
proof -
  have d: "defaultTTL (client example_call) = 2000000000"
    by (simp add: example_call_client example_client_def)
  have ms: "(2000000000::int) sdiv Millisecond = 2000"
    by (simp add: Millisecond_def signed_divide_int_def)
  from WithTimeout_not_positive_falls_back [of 0 example_call "''tok1''"]
    WithTimeout_not_positive_falls_back
      [of "- 1" "example_call\<lparr>client := example_client\<lparr>defaultTTL := 500000\<rparr>\<rparr>" "''tok1''"]
  show ?thesis unfolding d ms by (auto simp: Millisecond_def)
qed

text \<open>
  C10 as stated fails: with a default TTL of half a millisecond, which is positive,
  \<open>WithTimeout 0\<close> publishes the expiration \<open>0\<close>.
\<close>

theorem WithTimeout_zero_counterexample:
  "0 < defaultTTL (client (example_call\<lparr>client := example_client\<lparr>defaultTTL := 500000\<rparr>\<rparr>)) \<and>
   getTimeoutMilliseconds
     (WithTimeout (example_call\<lparr>client := example_client\<lparr>defaultTTL := 500000\<rparr>\<rparr>) 0) = 0 \<and>
   snd (snd (Async ''tok1'' None None
     (WithTimeout (example_call\<lparr>client := example_client\<lparr>defaultTTL := 500000\<rparr>\<rparr>) 0))) =
   [EPublish [] ''UserService''
      \<lparr>Headers = [''X-Method'' \<mapsto> HString ''doSomething''],
       Expiration = ''0'',
       ContentType = ''application/octet-stream'',
       CorrelationId = ''tok1'',
       ReplyTo = ''amq.gen-1'',
       Body = [104, 105]\<rparr>,
    published_log
      (WithTimeout (example_call\<lparr>client := example_client\<lparr>defaultTTL := 500000\<rparr>\<rparr>) 0) ''tok1'',
    EChannelClose]"
proof -
  have ms: "(500000::int) sdiv Millisecond = 0"
    by (simp add: sdiv_Millisecond_below Millisecond_def)
  show ?thesis
    by (simp add: Async_ok getTimeoutMilliseconds_eq getTimeout_def WithTimeout_def ms
        request_message_def example_call_def WithBody_def newCall_def example_client_def
        FormatInt_zero)
qed

end
